theory Spec2Isabelle
  imports Main
begin

section \<open>JavaScript strings and values\<close>

text \<open>
  A JavaScript string is modelled as a \<^typ>\<open>string\<close>, one \<^typ>\<open>char\<close> per code unit; the
  model covers the code units below 256 (Latin-1), which is where SMILES notation, the header
  words and every delimiter of \<^verbatim>\<open>src/app/page.jsx\<close> live.
\<close>

definition isWhiteSpace :: "char \<Rightarrow> bool" where
  \<comment> \<open>what \<^verbatim>\<open>String.prototype.trim\<close> strips: TAB, LF, VT, FF, CR, SP and NBSP\<close>
  "isWhiteSpace c \<longleftrightarrow>
     c = CHR 0x09 \<or> c = CHR 0x0A \<or> c = CHR 0x0B \<or> c = CHR 0x0C \<or> c = CHR 0x0D \<or>
     c = CHR 0x20 \<or> c = CHR 0xA0"

definition trim :: "string \<Rightarrow> string" where
  "trim s = rev (dropWhile isWhiteSpace (rev (dropWhile isWhiteSpace s)))"

definition lowerChar :: "char \<Rightarrow> char" where
  \<comment> \<open>A-Z and the Latin-1 capitals (0xC0-0xDE without the multiplication sign 0xD7)\<close>
  "lowerChar c =
     (let n = (of_char c :: nat)
      in if (65 \<le> n \<and> n \<le> 90) \<or> (192 \<le> n \<and> n \<le> 222 \<and> n \<noteq> 215)
         then char_of (n + 32) else c)"

definition toLowerCase :: "string \<Rightarrow> string" where
  "toLowerCase s = map lowerChar s"

fun startsWith :: "string \<Rightarrow> string \<Rightarrow> bool" where
  "startsWith s [] = True"
| "startsWith [] (p # ps) = False"
| "startsWith (c # cs) (p # ps) = (c = p \<and> startsWith cs ps)"

fun includesStr :: "string \<Rightarrow> string \<Rightarrow> bool" where
  "includesStr [] sub = (sub = [])"
| "includesStr (c # cs) sub = (startsWith (c # cs) sub \<or> includesStr cs sub)"

definition endsWith :: "string \<Rightarrow> string \<Rightarrow> bool" where
  "endsWith s suf = startsWith (rev s) (rev suf)"

fun lastIndexOf :: "string \<Rightarrow> char \<Rightarrow> nat option" where
  \<comment> \<open>\<^verbatim>\<open>None\<close> is JavaScript's -1\<close>
  "lastIndexOf [] d = None"
| "lastIndexOf (c # cs) d =
     (case lastIndexOf cs d of
        Some i \<Rightarrow> Some (Suc i)
      | None \<Rightarrow> if c = d then Some 0 else None)"

definition addChar :: "char \<Rightarrow> string list \<Rightarrow> string list" where
  \<comment> \<open>put a character in front of the piece being read\<close>
  "addChar c ps = (case ps of [] \<Rightarrow> [[c]] | p # qs \<Rightarrow> (c # p) # qs)"

fun splitOn :: "(char \<Rightarrow> bool) \<Rightarrow> string \<Rightarrow> string list" where
  \<comment> \<open>\<^verbatim>\<open>s.split(/[...]/)\<close>: every delimiter character ends a piece\<close>
  "splitOn d [] = [[]]"
| "splitOn d (c # cs) = (if d c then [] # splitOn d cs else addChar c (splitOn d cs))"

function splitRuns :: "(char \<Rightarrow> bool) \<Rightarrow> string \<Rightarrow> string list" where
  \<comment> \<open>\<^verbatim>\<open>s.split(/[...]+/)\<close>: a maximal run of delimiter characters ends a piece\<close>
  "splitRuns d [] = [[]]"
| "splitRuns d (c # cs) =
     (if d c then [] # splitRuns d (dropWhile d cs) else addChar c (splitRuns d cs))"
  by pat_completeness auto
termination
  by (relation "measure (\<lambda>(d, s). length s)") (auto simp: length_dropWhile_le less_Suc_eq_le)

fun splitLines :: "string \<Rightarrow> string list" where
  \<comment> \<open>\<^verbatim>\<open>s.split(/\r?\n/)\<close>: LF or CR LF ends a line, a lone CR stays in it\<close>
  "splitLines [] = [[]]"
| "splitLines [c] = (if c = CHR 0x0A then [[], []] else [[c]])"
| "splitLines (c # c' # cs) =
     (if c = CHR 0x0A then [] # splitLines (c' # cs)
      else if c = CHR 0x0D \<and> c' = CHR 0x0A then [] # splitLines cs
      else addChar c (splitLines (c' # cs)))"

fun digitsOf :: "nat \<Rightarrow> string" where
  \<comment> \<open>the decimal rendering of a natural number, as a template literal prints it\<close>
  "digitsOf n =
     (if n < 10 then [char_of (48 + n)] else digitsOf (n div 10) @ [char_of (48 + n mod 10)])"

declare digitsOf.simps [simp del]


datatype jsval =
    JUndefined
  | JNull
  | JBool bool
  | JNum string
  | JStr string
  | JArr "jsval list"
  | JObj "(string \<times> jsval) list"

text \<open>
  A number is carried by its rendering \<^verbatim>\<open>String(n)\<close>, so that no floating point
  arithmetic is needed: the numbers 0, -0 and NaN, the falsy ones, are exactly those that render
  as \<^verbatim>\<open>0\<close> and \<^verbatim>\<open>NaN\<close>.
\<close>

fun truthy :: "jsval \<Rightarrow> bool" where
  "truthy JUndefined = False"
| "truthy JNull = False"
| "truthy (JBool b) = b"
| "truthy (JNum n) = (n \<noteq> ''0'' \<and> n \<noteq> ''NaN'')"
| "truthy (JStr s) = (s \<noteq> [])"
| "truthy (JArr xs) = True"
| "truthy (JObj kvs) = True"

definition joinWith :: "string \<Rightarrow> string list \<Rightarrow> string" where
  "joinWith sep ps = (case ps of [] \<Rightarrow> [] | p # qs \<Rightarrow> p @ concat (map (\<lambda>q. sep @ q) qs))"

fun StringOf :: "jsval \<Rightarrow> string" where
  \<comment> \<open>\<^verbatim>\<open>String(v)\<close>\<close>
  "StringOf JUndefined = ''undefined''"
| "StringOf JNull = ''null''"
| "StringOf (JBool b) = (if b then ''true'' else ''false'')"
| "StringOf (JNum n) = n"
| "StringOf (JStr s) = s"
| "StringOf (JArr xs) =
     joinWith '','' (map (\<lambda>x. if x = JUndefined \<or> x = JNull then [] else StringOf x) xs)"
| "StringOf (JObj kvs) = ''[object Object]''"

definition orElse :: "jsval \<Rightarrow> jsval \<Rightarrow> jsval" where
  \<comment> \<open>\<^verbatim>\<open>a || b\<close>\<close>
  "orElse a b = (if truthy a then a else b)"

section \<open>Reading and parsing an uploaded file\<close>

record upload =
  file_name :: string
  file_type :: string

datatype read_mode = AsText | AsBinaryString

datatype reader_result = Loaded string | ReadError string

text \<open>
  The spreadsheet library is not part of the repository. Its outcome on a file's content is a
  parameter: either \<^verbatim>\<open>XLSX.read\<close> (or \<^verbatim>\<open>sheet_to_json\<close>) throws, or there is a workbook,
  given as the grids of its sheets in the order of \<^verbatim>\<open>SheetNames\<close>. A grid is what
  \<^verbatim>\<open>sheet_to_json(worksheet, {header: 1, raw: true, blankrows: false})\<close> returns: a list of
  rows, each a list of raw cell values (strings, numbers, booleans, \<^verbatim>\<open>undefined\<close> for a hole).
\<close>

datatype xlsx_result = XlsxThrows | Workbook "jsval list list list"

definition readFileContent ::
  "(upload \<Rightarrow> read_mode \<Rightarrow> reader_result) \<Rightarrow> upload \<Rightarrow> string + (string \<times> bool)" where
  \<comment> \<open>\<^verbatim>\<open>Inr (content, isBinary)\<close> when the promise resolves, \<^verbatim>\<open>Inl message\<close> when it rejects\<close>
  "readFileContent reader f =
     (case reader f (if endsWith (toLowerCase (file_name f)) ''.csv'' \<or> file_type f = ''text/csv''
                     then AsText else AsBinaryString) of
        Loaded content \<Rightarrow>
          Inr (content,
               \<not> endsWith (toLowerCase (file_name f)) ''.csv'' \<and> file_type f \<noteq> ''text/csv'')
      | ReadError m \<Rightarrow> Inl (''File reading error: '' @ m))"

definition firstCell :: "jsval list \<Rightarrow> jsval" where
  \<comment> \<open>\<^verbatim>\<open>row[0]\<close>, which is \<^verbatim>\<open>undefined\<close> on an empty row\<close>
  "firstCell row = (case row of [] \<Rightarrow> JUndefined | c # _ \<Rightarrow> c)"

definition cellText :: "jsval list \<Rightarrow> string" where
  \<comment> \<open>the first-column text of a row as both uses in \<^verbatim>\<open>parseFileContent\<close> read it:
      \<^verbatim>\<open>String(row[0] || "")\<close>, the empty string for a falsy cell\<close>
  "cellText row = (if truthy (firstCell row) then StringOf (firstCell row) else [])"

definition sheetFirstRowFirstCell :: "jsval list list \<Rightarrow> string" where
  "sheetFirstRowFirstCell localJsonSheet =
     toLowerCase (trim (StringOf (orElse (firstCell (localJsonSheet ! 0)) (JStr []))))"

definition sheetStartIndex :: "jsval list list \<Rightarrow> nat" where
  "sheetStartIndex localJsonSheet =
     (let firstRowFirstCell = sheetFirstRowFirstCell localJsonSheet
      in if length localJsonSheet > 1 \<and>
            (includesStr firstRowFirstCell ''smiles'' \<or> includesStr firstRowFirstCell ''compound'' \<or>
             includesStr firstRowFirstCell ''molecule'') \<and>
            length firstRowFirstCell < 50
         then 1 else 0)"

definition sheetSmiles :: "jsval list list \<Rightarrow> string list" where
  \<comment> \<open>the body of the \<^verbatim>\<open>try\<close> block of \<^verbatim>\<open>parseFileContent\<close>, after the workbook is read\<close>
  "sheetSmiles localJsonSheet =
     (if length localJsonSheet > 0 then
        filter (\<lambda>s. s \<noteq> [] \<and> length s > 2 \<and> \<not> includesStr (toLowerCase s) ''smiles'' \<and>
                    \<not> includesStr (toLowerCase s) ''compound'')
          (map (\<lambda>row. if truthy (firstCell row) then trim (StringOf (firstCell row)) else [])
            (drop (sheetStartIndex localJsonSheet) localJsonSheet))
      else [])"

definition isFieldSeparator :: "char \<Rightarrow> bool" where
  \<comment> \<open>the character class of \<^verbatim>\<open>/[,;\t]/\<close>\<close>
  "isFieldSeparator c \<longleftrightarrow> c = CHR '','' \<or> c = CHR '';'' \<or> c = CHR 0x09"

definition firstField :: "string \<Rightarrow> string" where
  \<comment> \<open>\<^verbatim>\<open>row.split(/[,;\t]/)[0]\<close>; the split of a string is never empty\<close>
  "firstField row = (case splitOn isFieldSeparator row of [] \<Rightarrow> [] | f # _ \<Rightarrow> f)"

definition csvStartIndex :: "string list \<Rightarrow> nat" where
  "csvStartIndex rows =
     (let firstRowFirstCell = toLowerCase (trim (firstField (rows ! 0)))
      in if length rows > 1 \<and>
            (includesStr firstRowFirstCell ''smiles'' \<or> includesStr firstRowFirstCell ''compound'' \<or>
             includesStr firstRowFirstCell ''molecule'') \<and>
            length firstRowFirstCell < 50
         then 1 else 0)"

definition csvSmiles :: "string \<Rightarrow> string list" where
  \<comment> \<open>the line-splitting fallback in the \<^verbatim>\<open>catch\<close> block of \<^verbatim>\<open>parseFileContent\<close>\<close>
  "csvSmiles fileContent =
     (let rows = splitLines fileContent
      in if length rows > 0 then
           filter (\<lambda>s. s \<noteq> [] \<and> length s > 2 \<and> \<not> includesStr (toLowerCase s) ''smiles'' \<and>
                       \<not> includesStr (toLowerCase s) ''compound'')
             (map (\<lambda>row. if firstField row \<noteq> [] then trim (firstField row) else [])
               (drop (csvStartIndex rows) rows))
         else [])"

definition couldNotParse :: string where
  "couldNotParse =
     ''Could not parse file. Ensure SMILES are in the first column of a valid Excel (xlsx, xls) or CSV file.''"

definition parseFileContent ::
  "(string \<Rightarrow> bool \<Rightarrow> xlsx_result) \<Rightarrow> string \<Rightarrow> bool \<Rightarrow> string \<Rightarrow> string + string list" where
  \<comment> \<open>\<^verbatim>\<open>Inl message\<close> is the thrown \<^verbatim>\<open>Error\<close>. A workbook without a sheet throws inside the
      \<^verbatim>\<open>try\<close> block, so it takes the \<^verbatim>\<open>catch\<close> branch like a failure of the library.\<close>
  "parseFileContent xlsxRead fileContent isBinary fileName =
     (case xlsxRead fileContent isBinary of
        Workbook (localJsonSheet # others) \<Rightarrow> Inr (sheetSmiles localJsonSheet)
      | _ \<Rightarrow>
          if \<not> isBinary \<and> endsWith (toLowerCase fileName) ''.csv''
          then Inr (csvSmiles fileContent)
          else Inl couldNotParse)"

section \<open>The page state and its handlers\<close>

record state =
  textareaValue :: string
  selectedFile :: "upload option"
  fileName :: string
  results :: jsval
  isLoading :: bool
  inputError :: string

definition initialState :: state where
  "initialState =
     \<lparr>textareaValue = [], selectedFile = None, fileName = [], results = JNull,
      isLoading = False, inputError = []\<rparr>"

definition MAX_COMPOUNDS :: nat where
  "MAX_COMPOUNDS = 20"

text \<open>
  What the browser and the network answer is a parameter of a submission: the outcome of the
  \<^verbatim>\<open>FileReader\<close>, of the spreadsheet library, and of \<^verbatim>\<open>fetch\<close> followed by
  \<^verbatim>\<open>res.json()\<close> on the list of SMILES that is posted.
\<close>

datatype body = BadJson string | Json jsval

datatype fetch_result = NetworkError string | Response nat body

record env =
  reader :: "upload \<Rightarrow> read_mode \<Rightarrow> reader_result"
  xlsxRead :: "string \<Rightarrow> bool \<Rightarrow> xlsx_result"
  fetch :: "string list \<Rightarrow> fetch_result"

definition constEnv :: "reader_result \<Rightarrow> xlsx_result \<Rightarrow> fetch_result \<Rightarrow> env" where
  \<comment> \<open>the surroundings that answer the same whatever they are asked; used in examples\<close>
  "constEnv r x f = \<lparr>reader = (\<lambda>_ _. r), xlsxRead = (\<lambda>_ _. x), fetch = (\<lambda>_. f)\<rparr>"

definition allowedTypes :: "string list" where
  "allowedTypes = [''.csv'', ''.xls'', ''.xlsx'']"

definition fileExtension :: "string \<Rightarrow> string" where
  \<comment> \<open>\<^verbatim>\<open>name.substring(name.lastIndexOf('.')).toLowerCase()\<close>; \<^verbatim>\<open>substring(-1)\<close> is the
      whole name\<close>
  "fileExtension n =
     toLowerCase (case lastIndexOf n (CHR ''.'') of None \<Rightarrow> n | Some i \<Rightarrow> drop i n)"

definition handleFileChange :: "upload option \<Rightarrow> state \<Rightarrow> state" where
  \<comment> \<open>the argument is \<^verbatim>\<open>event.target.files[0]\<close>\<close>
  "handleFileChange files0 st =
     (case files0 of
        Some f \<Rightarrow>
          (if fileExtension (file_name f) \<notin> set allowedTypes
           then st\<lparr>inputError := ''Invalid file type. Please upload CSV, XLS, or XLSX.'',
                   selectedFile := None, fileName := []\<rparr>
           else st\<lparr>selectedFile := Some f, fileName := file_name f, textareaValue := [],
                   inputError := [], results := JNull\<rparr>)
      | None \<Rightarrow> st\<lparr>selectedFile := None, fileName := []\<rparr>)"

definition textareaChange :: "string \<Rightarrow> state \<Rightarrow> state" where
  \<comment> \<open>the \<^verbatim>\<open>onChange\<close> handler of the textarea\<close>
  "textareaChange v st =
     st\<lparr>textareaValue := v, selectedFile := None, fileName := [], inputError := [],
        results := JNull\<rparr>"

definition clearInputs :: "state \<Rightarrow> state" where
  "clearInputs st =
     st\<lparr>textareaValue := [], selectedFile := None, fileName := [], inputError := [],
        results := JNull\<rparr>"

definition isTextDelimiter :: "char \<Rightarrow> bool" where
  \<comment> \<open>the character class of \<^verbatim>\<open>/[\n,]+/\<close>\<close>
  "isTextDelimiter c \<longleftrightarrow> c = CHR 0x0A \<or> c = CHR '',''"

definition orMessage :: "string \<Rightarrow> string \<Rightarrow> string" where
  \<comment> \<open>\<^verbatim>\<open>a || b\<close> on strings\<close>
  "orMessage a b = (if a \<noteq> [] then a else b)"

definition textSmiles :: "string \<Rightarrow> string list" where
  \<comment> \<open>\<^verbatim>\<open>textareaValue.split(/[\n,]+/).map(s => s.trim()).filter(s => s)\<close>\<close>
  "textSmiles t = filter (\<lambda>s. s \<noteq> []) (map trim (splitRuns isTextDelimiter t))"

definition smilesToProcess :: "env \<Rightarrow> state \<Rightarrow> string + string list" where
  \<comment> \<open>the list that \<^verbatim>\<open>handleSubmit\<close> assembles, or \<^verbatim>\<open>Inl message\<close> where it sets the
      input error and returns while assembling\<close>
  "smilesToProcess e st =
     (case selectedFile st of
        Some f \<Rightarrow>
          (case readFileContent (reader e) f of
             Inl m \<Rightarrow> Inl (orMessage m ''Failed to process file.'')
           | Inr (content, isBinary) \<Rightarrow>
               (case parseFileContent (xlsxRead e) content isBinary (file_name f) of
                  Inl m \<Rightarrow> Inl (orMessage m ''Failed to process file.'')
                | Inr smiles \<Rightarrow>
                    if length smiles = 0
                    then Inl ''No valid SMILES found in file. Check format (SMILES in first column, optional header).''
                    else Inr smiles))
      | None \<Rightarrow>
          if trim (textareaValue st) \<noteq> []
          then Inr (textSmiles (textareaValue st))
          else Inr [])"

definition getProp :: "jsval \<Rightarrow> string \<Rightarrow> jsval" where
  \<comment> \<open>\<^verbatim>\<open>v.key\<close> for a value that is neither \<^verbatim>\<open>null\<close> nor \<^verbatim>\<open>undefined\<close>; of a repeated
      key, \<^verbatim>\<open>JSON.parse\<close> keeps the last value\<close>
  "getProp v k =
     (case v of
        JObj kvs \<Rightarrow> (case map_of (rev kvs) k of Some x \<Rightarrow> x | None \<Rightarrow> JUndefined)
      | _ \<Rightarrow> JUndefined)"

definition errorResults :: "jsval \<Rightarrow> jsval" where
  \<comment> \<open>the object \<^verbatim>\<open>{ error: v }\<close>\<close>
  "errorResults v = JObj [(''error'', v)]"

definition nullPropertyMessage :: string where
  \<comment> \<open>the message of the \<^verbatim>\<open>TypeError\<close> that \<^verbatim>\<open>data.error\<close> throws when \<^verbatim>\<open>data\<close> is \<^verbatim>\<open>null\<close>\<close>
  "nullPropertyMessage = ''Cannot read properties of null (reading 'error')''"

definition isOk :: "nat \<Rightarrow> bool" where
  \<comment> \<open>\<^verbatim>\<open>res.ok\<close>: the status is in the range 200-299\<close>
  "isOk status \<longleftrightarrow> 200 \<le> status \<and> status \<le> 299"

definition serviceResults :: "fetch_result \<Rightarrow> jsval" where
  \<comment> \<open>the \<^verbatim>\<open>try\<close>/\<^verbatim>\<open>catch\<close> around \<^verbatim>\<open>fetch\<close>: the value given to \<^verbatim>\<open>setResults\<close>\<close>
  "serviceResults r =
     (case r of
        NetworkError m \<Rightarrow> errorResults (JStr (''Network/Parsing Error: '' @ m))
      | Response status (BadJson m) \<Rightarrow> errorResults (JStr (''Network/Parsing Error: '' @ m))
      | Response status (Json data) \<Rightarrow>
          if \<not> isOk status then
            (if data = JNull \<or> data = JUndefined
             then errorResults (JStr (''Network/Parsing Error: '' @ nullPropertyMessage))
             else errorResults
                    (orElse (getProp data ''error'') (JStr (''Server Error: '' @ digitsOf status))))
          else data)"

definition handleSubmit :: "env \<Rightarrow> state \<Rightarrow> state \<times> string list option" where
  \<comment> \<open>the new state, and the list posted to the prediction service if \<^verbatim>\<open>fetch\<close> was called\<close>
  "handleSubmit e st =
     (let st1 = st\<lparr>isLoading := True, results := JNull, inputError := []\<rparr>
      in case smilesToProcess e st of
           Inl m \<Rightarrow> (st1\<lparr>inputError := m, isLoading := False\<rparr>, None)
         | Inr smiles \<Rightarrow>
             if length smiles = 0
             then (st1\<lparr>inputError := ''No SMILES input. Enter in textarea or upload file.'',
                       isLoading := False\<rparr>, None)
             else if length smiles > MAX_COMPOUNDS
             then (st1\<lparr>inputError := ''Max '' @ digitsOf MAX_COMPOUNDS @
                                     '' compounds allowed. You provided '' @
                                     digitsOf (length smiles) @ ''.'',
                       isLoading := False\<rparr>, None)
             else (st1\<lparr>results := serviceResults (fetch e smiles), isLoading := False\<rparr>,
                   Some smiles))"

fun renderChild :: "jsval \<Rightarrow> string option" where
  \<comment> \<open>the text React puts on the page for \<^verbatim>\<open>{v}\<close>, \<^verbatim>\<open>None\<close> where rendering throws:
      strings and numbers are shown, \<^verbatim>\<open>null\<close>, \<^verbatim>\<open>undefined\<close> and booleans show nothing,
      an array shows its elements one after the other, an object is not a valid child\<close>
  "renderChild JUndefined = Some []"
| "renderChild JNull = Some []"
| "renderChild (JBool b) = Some []"
| "renderChild (JNum n) = Some n"
| "renderChild (JStr s) = Some s"
| "renderChild (JArr xs) =
     (case those (map renderChild xs) of None \<Rightarrow> None | Some ps \<Rightarrow> Some (concat ps))"
| "renderChild (JObj kvs) = None"

datatype panel = NoPanel | Panel string | RenderError

definition apiErrorPanel :: "state \<Rightarrow> panel" where
  \<comment> \<open>the "API Error" panel, with its text, when the page renders one:
      \<^verbatim>\<open>results && (... results.error && (<p>{results.error}</p>))\<close>\<close>
  "apiErrorPanel st =
     (if truthy (results st) \<and> truthy (getProp (results st) ''error'')
      then (case renderChild (getProp (results st) ''error'') of
              Some text \<Rightarrow> Panel text
            | None \<Rightarrow> RenderError)
      else NoPanel)"

inductive reachable :: "state \<Rightarrow> bool" where
  initial: "reachable initialState"
| fileChange: "reachable st \<Longrightarrow> reachable (handleFileChange files0 st)"
| textChange: "reachable st \<Longrightarrow> reachable (textareaChange v st)"
| submit: "reachable st \<Longrightarrow> reachable (fst (handleSubmit e st))"
| clear: "reachable st \<Longrightarrow> reachable (clearInputs st)"

section \<open>Exporting the result table\<close>

definition doubleQuotes :: "string \<Rightarrow> string" where
  \<comment> \<open>\<^verbatim>\<open>replace(/"/g, '""')\<close>\<close>
  "doubleQuotes s = concat (map (\<lambda>c. if c = CHR 0x22 then [CHR 0x22, CHR 0x22] else [c]) s)"

definition escapeCSVField :: "jsval \<Rightarrow> string" where
  "escapeCSVField field =
     (if field = JNull \<or> field = JUndefined then []
      else
        (let stringField = StringOf field
         in if includesStr stringField '','' \<or> includesStr stringField [CHR 0x22] \<or>
               includesStr stringField [CHR 0x0A] \<or> includesStr stringField [CHR 0x0D]
            then [CHR 0x22] @ doubleQuotes stringField @ [CHR 0x22]
            else stringField))"

section \<open>The extraction rule as the specification words it\<close>

text \<open>
  These three definitions follow the specification, not the code: the header rule and the
  per-value filter applied to a first column given as a list of texts. The two parse paths of
  the code are compared with them below.
\<close>

definition spec_isHeader :: "string \<Rightarrow> bool" where
  "spec_isHeader cell \<longleftrightarrow>
     (let c = toLowerCase (trim cell)
      in length c < 50 \<and>
         (includesStr c ''smiles'' \<or> includesStr c ''compound'' \<or> includesStr c ''molecule''))"

definition spec_keep :: "string \<Rightarrow> bool" where
  "spec_keep s \<longleftrightarrow>
     s \<noteq> [] \<and> 2 < length s \<and> \<not> includesStr (toLowerCase s) ''smiles'' \<and>
     \<not> includesStr (toLowerCase s) ''compound''"

definition spec_columnSmiles :: "string list \<Rightarrow> string list" where
  "spec_columnSmiles col =
     filter spec_keep
       (map trim (if 1 < length col \<and> spec_isHeader (hd col) then tl col else col))"


section \<open>Submission: when the prediction service is contacted\<close>

lemma digitsOf_20: "digitsOf 20 = ''20''"
  by code_simp

lemma digitsOf_21: "digitsOf 21 = ''21''"
  by code_simp

lemma handleSubmit_Inl:
  "smilesToProcess e st = Inl m \<Longrightarrow>
     snd (handleSubmit e st) = None \<and> inputError (fst (handleSubmit e st)) = m"
  by (simp add: handleSubmit_def Let_def)

lemma handleSubmit_empty:
  "smilesToProcess e st = Inr [] \<Longrightarrow>
     snd (handleSubmit e st) = None \<and>
     inputError (fst (handleSubmit e st)) = ''No SMILES input. Enter in textarea or upload file.''"
  by (simp add: handleSubmit_def Let_def)

lemma handleSubmit_many:
  "smilesToProcess e st = Inr xs \<Longrightarrow> 20 < length xs \<Longrightarrow>
     snd (handleSubmit e st) = None \<and>
     inputError (fst (handleSubmit e st)) =
       ''Max 20 compounds allowed. You provided '' @ digitsOf (length xs) @ ''.''"
  by (auto simp: handleSubmit_def Let_def MAX_COMPOUNDS_def digitsOf_20)

lemma handleSubmit_post:
  "smilesToProcess e st = Inr xs \<Longrightarrow> xs \<noteq> [] \<Longrightarrow> length xs \<le> 20 \<Longrightarrow>
     snd (handleSubmit e st) = Some xs \<and>
     results (fst (handleSubmit e st)) = serviceResults (fetch e xs)"
  by (simp add: handleSubmit_def Let_def MAX_COMPOUNDS_def)

lemma smilesToProcess_file_empty:
  "selectedFile st = Some f \<Longrightarrow> readFileContent (reader e) f = Inr (content, b) \<Longrightarrow>
   parseFileContent (xlsxRead e) content b (file_name f) = Inr [] \<Longrightarrow>
     smilesToProcess e st =
       Inl ''No valid SMILES found in file. Check format (SMILES in first column, optional header).''"
  by (simp add: smilesToProcess_def)

text \<open>
  Claim C1. A submission posts to the prediction service exactly when the list it assembled is
  non-empty and has at most 20 entries, and then it posts that list. An empty list stops the
  submission with the message "No SMILES input. Enter in textarea or upload file." (a file from
  which nothing was extracted stops it with "No valid SMILES found in file. ..."), and a list
  of more than 20 entries stops it with "Max 20 compounds allowed. You provided N."; in each of
  these cases nothing is posted.
\<close>

theorem handleSubmit_contacts_service:
  "(snd (handleSubmit e st) \<noteq> None \<longleftrightarrow>
      (\<exists>xs. smilesToProcess e st = Inr xs \<and> xs \<noteq> [] \<and> length xs \<le> 20)) \<and>
   (\<forall>xs. snd (handleSubmit e st) = Some xs \<longrightarrow> smilesToProcess e st = Inr xs) \<and>
   (smilesToProcess e st = Inr [] \<longrightarrow>
      snd (handleSubmit e st) = None \<and>
      inputError (fst (handleSubmit e st)) =
        ''No SMILES input. Enter in textarea or upload file.'') \<and>
   (\<forall>f content b.
      selectedFile st = Some f \<and> readFileContent (reader e) f = Inr (content, b) \<and>
      parseFileContent (xlsxRead e) content b (file_name f) = Inr [] \<longrightarrow>
      snd (handleSubmit e st) = None \<and>
      inputError (fst (handleSubmit e st)) =
        ''No valid SMILES found in file. Check format (SMILES in first column, optional header).'') \<and>
   (\<forall>xs. smilesToProcess e st = Inr xs \<and> 20 < length xs \<longrightarrow>
      snd (handleSubmit e st) = None \<and>
      inputError (fst (handleSubmit e st)) =
        ''Max 20 compounds allowed. You provided '' @ digitsOf (length xs) @ ''.'')"
proof -
  have empty_file: "\<forall>f content b.
      selectedFile st = Some f \<and> readFileContent (reader e) f = Inr (content, b) \<and>
      parseFileContent (xlsxRead e) content b (file_name f) = Inr [] \<longrightarrow>
      snd (handleSubmit e st) = None \<and>
      inputError (fst (handleSubmit e st)) =
        ''No valid SMILES found in file. Check format (SMILES in first column, optional header).''"
    using smilesToProcess_file_empty [of st _ e] handleSubmit_Inl [of e st] by blast
  show ?thesis
  proof (cases "smilesToProcess e st")
    case (Inl m)
    with empty_file show ?thesis by (simp add: handleSubmit_Inl)
  next
    case (Inr xs)
    consider "xs = []" | "20 < length xs" | "xs \<noteq> []" "length xs \<le> 20"
      by linarith
    then show ?thesis
    proof cases
      case 1
      with Inr empty_file handleSubmit_empty [of e st] show ?thesis by simp
    next
      case 2
      then have "xs \<noteq> []" by auto
      with 2 Inr empty_file handleSubmit_many [of e st xs] show ?thesis by simp
    next
      case 3
      with Inr empty_file handleSubmit_post [of e st xs] show ?thesis by simp
    qed
  qed
qed

lemma example_21_entries:
  "smilesToProcess (constEnv (ReadError []) XlsxThrows (NetworkError []))
     (textareaChange
        ''CCC,CCC,CCC,CCC,CCC,CCC,CCC,CCC,CCC,CCC,CCC,CCC,CCC,CCC,CCC,CCC,CCC,CCC,CCC,CCC,CCC''
        initialState) =
   Inr (replicate 21 ''CCC'')"
  by code_simp

lemma example_blank_text:
  "smilesToProcess (constEnv (ReadError []) XlsxThrows (NetworkError []))
     (textareaChange '' '' initialState) = Inr []"
  by code_simp

lemma example_one_entry:
  "smilesToProcess (constEnv (ReadError []) XlsxThrows (NetworkError []))
     (textareaChange ''CCC'' initialState) = Inr [''CCC'']"
  by code_simp

theorem handleSubmit_contacts_service_witness:
  "snd (handleSubmit (constEnv (ReadError []) XlsxThrows (NetworkError []))
         (textareaChange
            ''CCC,CCC,CCC,CCC,CCC,CCC,CCC,CCC,CCC,CCC,CCC,CCC,CCC,CCC,CCC,CCC,CCC,CCC,CCC,CCC,CCC''
            initialState)) = None \<and>
   inputError (fst (handleSubmit (constEnv (ReadError []) XlsxThrows (NetworkError []))
         (textareaChange
            ''CCC,CCC,CCC,CCC,CCC,CCC,CCC,CCC,CCC,CCC,CCC,CCC,CCC,CCC,CCC,CCC,CCC,CCC,CCC,CCC,CCC''
            initialState))) = ''Max 20 compounds allowed. You provided 21.'' \<and>
   snd (handleSubmit (constEnv (ReadError []) XlsxThrows (NetworkError []))
         (textareaChange '' '' initialState)) = None \<and>
   inputError (fst (handleSubmit (constEnv (ReadError []) XlsxThrows (NetworkError []))
         (textareaChange '' '' initialState))) =
     ''No SMILES input. Enter in textarea or upload file.'' \<and>
   snd (handleSubmit (constEnv (ReadError []) XlsxThrows (NetworkError []))
         (textareaChange ''CCC'' initialState)) = Some [''CCC'']"
proof -
  let ?e = "constEnv (ReadError []) XlsxThrows (NetworkError [])"
  let ?many = "textareaChange
      ''CCC,CCC,CCC,CCC,CCC,CCC,CCC,CCC,CCC,CCC,CCC,CCC,CCC,CCC,CCC,CCC,CCC,CCC,CCC,CCC,CCC''
      initialState"
  have many: "snd (handleSubmit ?e ?many) = None \<and>
      inputError (fst (handleSubmit ?e ?many)) = ''Max 20 compounds allowed. You provided 21.''"
    using handleSubmit_contacts_service [of ?e ?many] example_21_entries
    by (simp add: digitsOf_21)
  have blank: "snd (handleSubmit ?e (textareaChange '' '' initialState)) = None \<and>
      inputError (fst (handleSubmit ?e (textareaChange '' '' initialState))) =
        ''No SMILES input. Enter in textarea or upload file.''"
    using handleSubmit_contacts_service [of ?e "textareaChange '' '' initialState"]
      example_blank_text by simp
  have "snd (handleSubmit ?e (textareaChange ''CCC'' initialState)) \<noteq> None"
    using handleSubmit_contacts_service [of ?e "textareaChange ''CCC'' initialState"]
      example_one_entry by simp
  then obtain ys where ys: "snd (handleSubmit ?e (textareaChange ''CCC'' initialState)) = Some ys"
    by blast
  then have "smilesToProcess ?e (textareaChange ''CCC'' initialState) = Inr ys"
    using handleSubmit_contacts_service [of ?e "textareaChange ''CCC'' initialState"] by blast
  with ys example_one_entry
  have one: "snd (handleSubmit ?e (textareaChange ''CCC'' initialState)) = Some [''CCC'']"
    by simp
  from many blank one show ?thesis by blast
qed

section \<open>Exporting: quoting of a CSV field\<close>

lemma includesStr_single: "includesStr s [c] \<longleftrightarrow> c \<in> set s"
  by (induction s) auto

text \<open>
  Claim C9. A field value that is stringified (anything but \<^verbatim>\<open>null\<close> and \<^verbatim>\<open>undefined\<close>,
  which the table holds for no column of a well-formed response and which are written as the
  empty field) is written between double quotes, with each of its double quotes written twice,
  when its text contains a comma, a double quote, a line feed or a carriage return, and is
  written as it is otherwise. The identifier C,C is written as "C,C".
\<close>

theorem escapeCSVField_quoting:
  assumes "field \<noteq> JNull" and "field \<noteq> JUndefined"
  shows "escapeCSVField field =
           (if \<exists>c \<in> set (StringOf field).
                 c = CHR '','' \<or> c = CHR 0x22 \<or> c = CHR 0x0A \<or> c = CHR 0x0D
            then [CHR 0x22] @
                 concat (map (\<lambda>c. if c = CHR 0x22 then [CHR 0x22, CHR 0x22] else [c])
                           (StringOf field)) @
                 [CHR 0x22]
            else StringOf field) \<and>
         escapeCSVField (JStr ''C,C'') = [CHR 0x22] @ ''C,C'' @ [CHR 0x22]"
proof -
  have "escapeCSVField (JStr ''C,C'') = [CHR 0x22] @ ''C,C'' @ [CHR 0x22]"
    by (simp add: escapeCSVField_def doubleQuotes_def)
  moreover from assms have "escapeCSVField field =
           (if \<exists>c \<in> set (StringOf field).
                 c = CHR '','' \<or> c = CHR 0x22 \<or> c = CHR 0x0A \<or> c = CHR 0x0D
            then [CHR 0x22] @
                 concat (map (\<lambda>c. if c = CHR 0x22 then [CHR 0x22, CHR 0x22] else [c])
                           (StringOf field)) @
                 [CHR 0x22]
            else StringOf field)"
    by (auto simp: escapeCSVField_def doubleQuotes_def includesStr_single Let_def)
  ultimately show ?thesis by blast
qed

theorem escapeCSVField_quoting_witness:
  "JStr (''say '' @ [CHR 0x22] @ ''hi'' @ [CHR 0x22]) \<noteq> JNull \<and>
   JStr (''say '' @ [CHR 0x22] @ ''hi'' @ [CHR 0x22]) \<noteq> JUndefined \<and>
   escapeCSVField (JStr (''say '' @ [CHR 0x22] @ ''hi'' @ [CHR 0x22])) =
     [CHR 0x22] @ ''say '' @ [CHR 0x22, CHR 0x22] @ ''hi'' @ [CHR 0x22, CHR 0x22] @ [CHR 0x22] \<and>
   escapeCSVField (JNum ''3.14'') = ''3.14''"
  using escapeCSVField_quoting [of "JStr (''say '' @ [CHR 0x22] @ ''hi'' @ [CHR 0x22])"]
        escapeCSVField_quoting [of "JNum ''3.14''"]
  by simp

section \<open>The answer of the prediction service\<close>

lemma handleSubmit_results:
  "snd (handleSubmit e st) = Some xs \<Longrightarrow>
     results (fst (handleSubmit e st)) = serviceResults (fetch e xs)"
  by (auto simp: handleSubmit_def Let_def split: sum.splits if_splits)

lemma apiErrorPanel_errorResults:
  "results st = errorResults (JStr m) \<Longrightarrow> m \<noteq> [] \<Longrightarrow> apiErrorPanel st = Panel m"
  by (simp add: apiErrorPanel_def errorResults_def getProp_def)

text \<open>
  Claim C7, as amended. After a submission that posted a list: a response outside 200-299 whose
  body is \<^verbatim>\<open>{"error": m}\<close> with a non-empty text m shows the API-error panel with exactly
  m; with the empty text the panel shows "Server Error: " followed by the status; and a body
  that fails JSON decoding shows "Network/Parsing Error: " followed by the decoder's detail.
\<close>

theorem api_error_panel:
  assumes "snd (handleSubmit e st) = Some xs"
  shows "(fetch e xs = Response status (Json (JObj [(''error'', JStr m)])) \<and>
          \<not> isOk status \<and> m \<noteq> [] \<longrightarrow>
            apiErrorPanel (fst (handleSubmit e st)) = Panel m) \<and>
         (fetch e xs = Response status (Json (JObj [(''error'', JStr [])])) \<and>
          \<not> isOk status \<longrightarrow>
            apiErrorPanel (fst (handleSubmit e st)) =
              Panel (''Server Error: '' @ digitsOf status)) \<and>
         (fetch e xs = Response status (BadJson detail) \<longrightarrow>
            apiErrorPanel (fst (handleSubmit e st)) =
              Panel (''Network/Parsing Error: '' @ detail))"
proof -
  have r: "results (fst (handleSubmit e st)) = serviceResults (fetch e xs)"
    using assms by (rule handleSubmit_results)
  show ?thesis
    by (auto simp: serviceResults_def orElse_def getProp_def
        intro!: apiErrorPanel_errorResults [OF trans [OF r]])
qed

lemma example_bad_request_posted:
  "snd (handleSubmit
         (constEnv (ReadError []) XlsxThrows
            (Response 400 (Json (JObj [(''error'', JStr ''bad request'')]))))
         (textareaChange ''CCC'' initialState)) = Some [''CCC'']"
  by code_simp

lemma example_bad_json_posted:
  "snd (handleSubmit
         (constEnv (ReadError []) XlsxThrows (Response 200 (BadJson ''Unexpected token <'')))
         (textareaChange ''CCC'' initialState)) = Some [''CCC'']"
  by code_simp

theorem api_error_panel_witness:
  "apiErrorPanel (fst (handleSubmit
       (constEnv (ReadError []) XlsxThrows
          (Response 400 (Json (JObj [(''error'', JStr ''bad request'')]))))
       (textareaChange ''CCC'' initialState))) = Panel ''bad request'' \<and>
   apiErrorPanel (fst (handleSubmit
       (constEnv (ReadError []) XlsxThrows (Response 200 (BadJson ''Unexpected token <'')))
       (textareaChange ''CCC'' initialState))) =
     Panel ''Network/Parsing Error: Unexpected token <''"
  using api_error_panel [OF example_bad_request_posted, of 400 "''bad request''"]
        api_error_panel [OF example_bad_json_posted, of 200 _ "''Unexpected token <''"]
  by (simp add: constEnv_def isOk_def)

text \<open>
  The claim as it is written fails for the empty message: a 400 response with the body
  \<^verbatim>\<open>{"error": ""}\<close> shows "Server Error: 400", not the empty text.
\<close>

theorem api_error_panel_counterexample:
  "\<not> isOk 400 \<and>
   apiErrorPanel (fst (handleSubmit
       (constEnv (ReadError []) XlsxThrows (Response 400 (Json (JObj [(''error'', JStr [])]))))
       (textareaChange ''CCC'' initialState))) = Panel ''Server Error: 400''"
  by code_simp

section \<open>The two input sources\<close>

lemma handleSubmit_inputs:
  "textareaValue (fst (handleSubmit e st)) = textareaValue st \<and>
   selectedFile (fst (handleSubmit e st)) = selectedFile st"
  by (auto simp: handleSubmit_def Let_def split: sum.splits if_splits)

lemma handleFileChange_exclusive:
  "textareaValue st = [] \<or> selectedFile st = None \<Longrightarrow>
   textareaValue (handleFileChange files0 st) = [] \<or>
   selectedFile (handleFileChange files0 st) = None"
  by (auto simp: handleFileChange_def split: option.splits)

lemma reachable_exclusive: "reachable st \<Longrightarrow> textareaValue st = [] \<or> selectedFile st = None"
proof (induction rule: reachable.induct)
  case initial
  show ?case by (simp add: initialState_def)
next
  case (fileChange st files0)
  from fileChange.IH show ?case by (rule handleFileChange_exclusive)
next
  case (textChange st v)
  show ?case by (simp add: textareaChange_def)
next
  case (submit st e)
  then show ?case by (simp add: handleSubmit_inputs)
next
  case (clear st)
  show ?case by (simp add: clearInputs_def)
qed

text \<open>
  Claim C8, as amended. In every state the page can reach, at most one of the two input sources
  is in use: the text is empty or no file is selected. Selecting a file with an accepted
  extension empties the text and the result set, and entering text deselects the file and
  empties the result set.
\<close>

theorem input_sources_exclusive:
  "(reachable st \<longrightarrow> textareaValue st = [] \<or> selectedFile st = None) \<and>
   (fileExtension (file_name f) \<in> set allowedTypes \<longrightarrow>
      selectedFile (handleFileChange (Some f) st) = Some f \<and>
      textareaValue (handleFileChange (Some f) st) = [] \<and>
      results (handleFileChange (Some f) st) = JNull) \<and>
   selectedFile (textareaChange v st) = None \<and>
   textareaValue (textareaChange v st) = v \<and>
   results (textareaChange v st) = JNull"
  using reachable_exclusive [of st]
  by (simp add: handleFileChange_def textareaChange_def)

lemma example_extension: "fileExtension ''data.CSV'' \<in> set allowedTypes"
  by code_simp

lemma example_reachable:
  "reachable (handleFileChange (Some \<lparr>file_name = ''data.CSV'', file_type = []\<rparr>)
               (textareaChange ''CCC'' initialState))"
  by (rule reachable.fileChange, rule reachable.textChange, rule reachable.initial)

theorem input_sources_exclusive_witness:
  "reachable (handleFileChange (Some \<lparr>file_name = ''data.CSV'', file_type = []\<rparr>)
               (textareaChange ''CCC'' initialState)) \<and>
   fileExtension (file_name \<lparr>file_name = ''data.CSV'', file_type = []\<rparr>) \<in> set allowedTypes \<and>
   textareaValue (handleFileChange (Some \<lparr>file_name = ''data.CSV'', file_type = []\<rparr>)
                    (textareaChange ''CCC'' initialState)) = [] \<and>
   selectedFile (handleFileChange (Some \<lparr>file_name = ''data.CSV'', file_type = []\<rparr>)
                   (textareaChange ''CCC'' initialState)) =
     Some \<lparr>file_name = ''data.CSV'', file_type = []\<rparr>"
proof -
  let ?f = "\<lparr>file_name = ''data.CSV'', file_type = []\<rparr>"
  let ?st = "handleFileChange (Some ?f) (textareaChange ''CCC'' initialState)"
  have "textareaValue ?st = [] \<or> selectedFile ?st = None"
    by (rule mp [OF conjunct1 [OF input_sources_exclusive] example_reachable])
  moreover have "selectedFile ?st = Some ?f \<and> textareaValue ?st = []"
    using input_sources_exclusive [of "textareaChange ''CCC'' initialState" ?f]
      example_extension by simp
  ultimately show ?thesis
    using example_reachable example_extension by simp
qed

text \<open>
  The claim as it is written asks for exactly one source in use at any time; in the initial
  state (and after clearing) neither is.
\<close>

theorem input_sources_exclusive_counterexample:
  "reachable initialState \<and> textareaValue initialState = [] \<and> selectedFile initialState = None"
proof -
  have "textareaValue initialState = [] \<and> selectedFile initialState = None"
    by (simp add: initialState_def)
  with reachable.initial show ?thesis by blast
qed

section \<open>Parsing an uploaded file\<close>

lemma trim_Nil [simp]: "trim [] = []"
  by (simp add: trim_def)

lemma splitOn_not_Nil [simp]: "splitOn d s \<noteq> []"
  by (induction s) (auto simp: addChar_def split: list.splits)

lemma splitLines_not_Nil [simp]: "splitLines s \<noteq> []"
  by (induction s rule: splitLines.induct) (auto simp: addChar_def split: list.splits)

lemma firstField_takeWhile: "firstField row = takeWhile (\<lambda>c. \<not> isFieldSeparator c) row"
proof (induction row)
  case Nil
  show ?case by (simp add: firstField_def)
next
  case (Cons c cs)
  then show ?case
    by (cases "splitOn isFieldSeparator cs") (auto simp: firstField_def addChar_def)
qed

lemma cellText_orElse: "StringOf (orElse (firstCell row) (JStr [])) = cellText row"
  by (simp add: orElse_def cellText_def)

lemma sheetFirstRowFirstCell_Cons:
  "sheetFirstRowFirstCell (r # rs) = toLowerCase (trim (cellText r))"
  by (simp add: sheetFirstRowFirstCell_def cellText_orElse)

lemma sheet_map_cellText:
  "map (\<lambda>row. if truthy (firstCell row) then trim (StringOf (firstCell row)) else []) rows =
   map trim (map cellText rows)"
  by (simp add: cellText_def)

lemma csv_map_firstField:
  "map (\<lambda>row. if firstField row \<noteq> [] then trim (firstField row) else []) rows =
   map trim (map firstField rows)"
  by simp

lemma sheetSmiles_spec: "sheetSmiles g = spec_columnSmiles (map cellText g)"
proof (cases g)
  case Nil
  then show ?thesis by (simp add: sheetSmiles_def spec_columnSmiles_def)
next
  case (Cons r rs)
  have "drop (sheetStartIndex (r # rs)) (map cellText (r # rs)) =
        (if 1 < length (map cellText (r # rs)) \<and> spec_isHeader (hd (map cellText (r # rs)))
         then tl (map cellText (r # rs)) else map cellText (r # rs))"
    by (auto simp: sheetStartIndex_def sheetFirstRowFirstCell_Cons spec_isHeader_def Let_def)
  then show ?thesis
    unfolding Cons sheetSmiles_def spec_columnSmiles_def sheet_map_cellText
    by (simp add: drop_map spec_keep_def [abs_def] del: list.map)
qed

lemma csvSmiles_spec: "csvSmiles content = spec_columnSmiles (map firstField (splitLines content))"
proof -
  obtain r rs where rows: "splitLines content = r # rs"
    by (cases "splitLines content") auto
  have "drop (csvStartIndex (r # rs)) (map firstField (r # rs)) =
        (if 1 < length (map firstField (r # rs)) \<and> spec_isHeader (hd (map firstField (r # rs)))
         then tl (map firstField (r # rs)) else map firstField (r # rs))"
    by (auto simp: csvStartIndex_def spec_isHeader_def Let_def)
  then show ?thesis
    unfolding csvSmiles_def Let_def rows spec_columnSmiles_def csv_map_firstField
    by (simp add: drop_map spec_keep_def [abs_def] del: list.map)
qed

lemma parse_workbook:
  "xlsx content isBinary = Workbook (g # others) \<Longrightarrow>
     parseFileContent xlsx content isBinary fname = Inr (sheetSmiles g)"
  by (simp add: parseFileContent_def)

lemma parse_failure:
  "xlsx content isBinary = XlsxThrows \<or> xlsx content isBinary = Workbook [] \<Longrightarrow>
     parseFileContent xlsx content isBinary fname =
       (if \<not> isBinary \<and> endsWith (toLowerCase fname) ''.csv''
        then Inr (csvSmiles content) else Inl couldNotParse)"
  by (auto simp: parseFileContent_def)


lemma sheet_row_text:
  "(\<lambda>row. if truthy (firstCell row) then trim (StringOf (firstCell row)) else []) =
   (\<lambda>row. trim (cellText row))"
  by (auto simp: cellText_def fun_eq_iff)

lemma sheetSmiles_rows:
  "sheetSmiles g =
     filter (\<lambda>s. s \<noteq> [] \<and> 2 < length s \<and> \<not> includesStr (toLowerCase s) ''smiles'' \<and>
                 \<not> includesStr (toLowerCase s) ''compound'')
       (map (\<lambda>row. trim (cellText row)) (drop (sheetStartIndex g) g))"
  by (simp add: sheetSmiles_def sheet_row_text)

lemma sheetStartIndex_rule:
  "sheetStartIndex g =
      (if 1 < length g \<and> length (toLowerCase (trim (cellText (hd g)))) < 50 \<and>
          (includesStr (toLowerCase (trim (cellText (hd g)))) ''smiles'' \<or>
           includesStr (toLowerCase (trim (cellText (hd g)))) ''compound'' \<or>
           includesStr (toLowerCase (trim (cellText (hd g)))) ''molecule'')
       then 1 else 0)"
  by (cases g) (auto simp: sheetStartIndex_def sheetFirstRowFirstCell_Cons Let_def)

lemma drop_startIndex: "drop (if h then 1 else 0) g = (if h then tl g else g)"
  by (simp add: drop_Suc)


lemma csv_row_text:
  "(\<lambda>row. if firstField row \<noteq> [] then trim (firstField row) else []) =
   (\<lambda>row. trim (takeWhile (\<lambda>c. \<not> isFieldSeparator c) row))"
  by (auto simp: firstField_takeWhile fun_eq_iff)

lemma csvSmiles_rows:
  "csvSmiles content =
     filter (\<lambda>s. s \<noteq> [] \<and> 2 < length s \<and> \<not> includesStr (toLowerCase s) ''smiles'' \<and>
                 \<not> includesStr (toLowerCase s) ''compound'')
       (map (\<lambda>row. trim (takeWhile (\<lambda>c. \<not> isFieldSeparator c) row))
          (drop (csvStartIndex (splitLines content)) (splitLines content)))"
  by (simp add: csvSmiles_def Let_def csv_row_text)

lemma readFileContent_isBinary:
  "readFileContent rd f = Inr (content, b) \<Longrightarrow>
     b = (\<not> endsWith (toLowerCase (file_name f)) ''.csv'' \<and> file_type f \<noteq> ''text/csv'')"
  by (auto simp: readFileContent_def split: reader_result.splits)


text \<open>
  Claim C2, as amended. When the workbook is read, the first row of the grid is skipped exactly
  when the grid has more than one row and the text of its first cell, trimmed and lowercased,
  is shorter than 50 characters and contains "smiles", "compound" or "molecule"; the result is
  extracted from the remaining rows. A grid with the header SMILES and the rows CCC, CCO, CNC
  gives these three candidates, and so does the grid without the header.
\<close>

theorem header_row_skipped:
  assumes "xlsx content isBinary = Workbook (g # others)"
  shows
    "(let c = toLowerCase (trim (cellText (hd g)));
          header = (1 < length g \<and> length c < 50 \<and>
                    (includesStr c ''smiles'' \<or> includesStr c ''compound'' \<or>
                     includesStr c ''molecule''))
      in sheetStartIndex g = (if header then 1 else 0) \<and>
         parseFileContent xlsx content isBinary fname =
           Inr (filter (\<lambda>s. s \<noteq> [] \<and> 2 < length s \<and>
                          \<not> includesStr (toLowerCase s) ''smiles'' \<and>
                          \<not> includesStr (toLowerCase s) ''compound'')
                  (map (\<lambda>row. trim (cellText row)) (if header then tl g else g)))) \<and>
     sheetSmiles [[JStr ''SMILES''], [JStr ''CCC''], [JStr ''CCO''], [JStr ''CNC'']] =
       [''CCC'', ''CCO'', ''CNC''] \<and>
     sheetSmiles [[JStr ''CCC''], [JStr ''CCO''], [JStr ''CNC'']] = [''CCC'', ''CCO'', ''CNC'']"
proof -
  have ex1: "sheetSmiles [[JStr ''SMILES''], [JStr ''CCC''], [JStr ''CCO''], [JStr ''CNC'']] =
       [''CCC'', ''CCO'', ''CNC'']"
    by code_simp
  have ex2: "sheetSmiles [[JStr ''CCC''], [JStr ''CCO''], [JStr ''CNC'']] = [''CCC'', ''CCO'', ''CNC'']"
    by code_simp
  have res: "sheetSmiles g =
      filter (\<lambda>s. s \<noteq> [] \<and> 2 < length s \<and> \<not> includesStr (toLowerCase s) ''smiles'' \<and>
                  \<not> includesStr (toLowerCase s) ''compound'')
        (map (\<lambda>row. trim (cellText row))
           (if 1 < length g \<and> length (toLowerCase (trim (cellText (hd g)))) < 50 \<and>
               (includesStr (toLowerCase (trim (cellText (hd g)))) ''smiles'' \<or>
                includesStr (toLowerCase (trim (cellText (hd g)))) ''compound'' \<or>
                includesStr (toLowerCase (trim (cellText (hd g)))) ''molecule'')
            then tl g else g))"
    using sheetSmiles_rows [of g] unfolding sheetStartIndex_rule [of g] drop_startIndex .
  have parse: "parseFileContent xlsx content isBinary fname = Inr (sheetSmiles g)"
    using assms by (rule parse_workbook [of xlsx content isBinary g others fname])
  show ?thesis
    unfolding Let_def parse ex1 ex2
    using sheetStartIndex_rule [of g] res by simp
qed

theorem header_row_skipped_witness:
  "parseFileContent (\<lambda>_ _. Workbook [[[JStr '' Compound ID''], [JStr ''CCC''], [JStr ''CCO'']]])
     ''x'' True ''a.xlsx'' = Inr [''CCC'', ''CCO''] \<and>
   sheetStartIndex [[JStr '' Compound ID''], [JStr ''CCC''], [JStr ''CCO'']] = 1"
proof -
  let ?g = "[[JStr '' Compound ID''], [JStr ''CCC''], [JStr ''CCO'']]"
  have c: "toLowerCase (trim (cellText (hd ?g))) = ''compound id''"
    by code_simp
  have f: "filter (\<lambda>s. s \<noteq> [] \<and> 2 < length s \<and> \<not> includesStr (toLowerCase s) ''smiles'' \<and>
                      \<not> includesStr (toLowerCase s) ''compound'')
             (map (\<lambda>row. trim (cellText row)) [[JStr ''CCC''], [JStr ''CCO'']]) =
           [''CCC'', ''CCO'']"
    by code_simp
  have h: "includesStr ''compound id'' ''compound''"
    by code_simp
  show ?thesis
    using header_row_skipped
            [of "\<lambda>_ _. Workbook [?g]" "''x''" True ?g "[]" "''a.xlsx''"]
    unfolding Let_def c
    by (simp add: h f del: list.map filter.simps)
qed

text \<open>
  The claim's last clause, that a first cell under 50 characters containing "smiles" is both
  necessary and sufficient for the skip, fails in both directions: the header "Molecule" is
  skipped without containing "smiles", and a grid that consists of the single row "SMILES"
  keeps it as a row.
\<close>

theorem header_row_skipped_counterexample:
  "sheetStartIndex [[JStr ''Molecule''], [JStr ''CCC'']] = 1 \<and>
   \<not> includesStr (sheetFirstRowFirstCell [[JStr ''Molecule''], [JStr ''CCC'']]) ''smiles'' \<and>
   sheetStartIndex [[JStr ''SMILES'']] = 0 \<and>
   includesStr (sheetFirstRowFirstCell [[JStr ''SMILES'']]) ''smiles'' \<and>
   length (sheetFirstRowFirstCell [[JStr ''SMILES'']]) < 50"
  by code_simp

text \<open>
  Claim C3, as amended. When the workbook is read, the result is the list of the first-column
  texts of the rows after the start index, in order, where a falsy cell (a missing cell, the
  empty string, the numbers 0 and NaN, the boolean false) counts as the empty text and any
  other cell is stringified, each text trimmed, keeping those that are non-empty, longer than
  2 characters and whose lowercase form contains neither "smiles" nor "compound". Every
  candidate is longer than 2 characters; the cell "C" is left out.
\<close>

theorem sheet_candidates:
  assumes "xlsx content isBinary = Workbook (g # others)"
  shows
    "parseFileContent xlsx content isBinary fname =
       Inr (filter (\<lambda>s. s \<noteq> [] \<and> 2 < length s \<and>
                      \<not> includesStr (toLowerCase s) ''smiles'' \<and>
                      \<not> includesStr (toLowerCase s) ''compound'')
              (map (\<lambda>row. trim (if truthy (firstCell row) then StringOf (firstCell row) else []))
                 (drop (sheetStartIndex g) g))) \<and>
     (\<forall>xs s. parseFileContent xlsx content isBinary fname = Inr xs \<and> s \<in> set xs \<longrightarrow>
        2 < length s) \<and>
     sheetSmiles [[JStr ''CCC''], [JStr ''C''], [JStr ''CCO'']] = [''CCC'', ''CCO'']"
proof -
  have ex: "sheetSmiles [[JStr ''CCC''], [JStr ''C''], [JStr ''CCO'']] = [''CCC'', ''CCO'']"
    by code_simp
  have parse: "parseFileContent xlsx content isBinary fname = Inr (sheetSmiles g)"
    using assms by (rule parse_workbook [of xlsx content isBinary g others fname])
  have long: "\<forall>s \<in> set (sheetSmiles g). 2 < length s"
    by (simp add: sheetSmiles_rows)
  show ?thesis
    unfolding parse ex using long sheetSmiles_rows [of g]
    by (simp add: cellText_def [abs_def])
qed

theorem sheet_candidates_witness:
  "parseFileContent (\<lambda>_ _. Workbook [[[JStr ''CCC'', JNum ''1''], [JStr ''C''], [JNum ''12345'']]])
     ''x'' True ''a.xlsx'' = Inr [''CCC'', ''12345''] \<and>
   2 < length ''CCC'' \<and> 2 < length ''12345''"
proof -
  let ?g = "[[JStr ''CCC'', JNum ''1''], [JStr ''C''], [JNum ''12345'']]"
  have p: "parseFileContent (\<lambda>_ _. Workbook [?g]) ''x'' True ''a.xlsx'' = Inr [''CCC'', ''12345'']"
    by code_simp
  have all: "\<forall>xs s. parseFileContent (\<lambda>_ _. Workbook [?g]) ''x'' True ''a.xlsx'' = Inr xs \<and>
          s \<in> set xs \<longrightarrow> 2 < length s"
    using sheet_candidates [of "\<lambda>_ _. Workbook [?g]" "''x''" True ?g "[]" "''a.xlsx''"]
    by blast
  have "''CCC'' \<in> set [''CCC'', ''12345'']" and "''12345'' \<in> set [''CCC'', ''12345'']"
    by simp_all
  with p all have "2 < length ''CCC''" and "2 < length ''12345''"
    by blast+
  with p show ?thesis by blast
qed

text \<open>
  The claim as it is written stringifies every first-column value. The boolean cell
  \<^verbatim>\<open>false\<close> stringifies to "false", which passes the filter, but the code reads it as the
  empty text and leaves it out.
\<close>

theorem sheet_candidates_counterexample:
  "parseFileContent (\<lambda>_ _. Workbook [[[JStr ''CCC''], [JBool False]]]) ''x'' True ''a.xlsx'' =
     Inr [''CCC''] \<and>
   filter (\<lambda>s. s \<noteq> [] \<and> 2 < length s \<and> \<not> includesStr (toLowerCase s) ''smiles'' \<and>
               \<not> includesStr (toLowerCase s) ''compound'')
     (map (\<lambda>row. trim (StringOf (firstCell row)))
        (drop (sheetStartIndex [[JStr ''CCC''], [JBool False]]) [[JStr ''CCC''], [JBool False]])) =
     [''CCC'', ''false'']"
  by code_simp

lemma readFileContent_loaded:
  "readFileContent rd f = Inr (content, b) \<Longrightarrow>
     rd f (if b then AsBinaryString else AsText) = Loaded content"
  by (auto simp: readFileContent_def split: reader_result.splits if_splits)

lemma smilesToProcess_parse_error:
  "selectedFile st = Some f \<Longrightarrow> readFileContent (reader e) f = Inr (content, b) \<Longrightarrow>
   parseFileContent (xlsxRead e) content b (file_name f) = Inl couldNotParse \<Longrightarrow>
     smilesToProcess e st = Inl couldNotParse"
  by (simp add: smilesToProcess_def orMessage_def couldNotParse_def)


text \<open>
  Claim C4, as amended. For a file that was read, when the structured parse fails (the library
  throws, or the workbook has no sheet): if the name of the file ends in ".csv", whatever the
  case, the content is split into lines at LF and CR LF, the first field of each line is what
  precedes its first comma, semicolon or tab, and the candidates are extracted from these
  fields; if the name does not end in ".csv", the parse fails with the message that names the
  accepted formats, and the submission stops with that message and posts nothing. The file is
  read as text when its name ends in ".csv" or its type is text/csv, and as a binary string
  otherwise; the type alone does not open the fallback.
\<close>

theorem csv_fallback:
  assumes "readFileContent rd f = Inr (content, isBinary)"
      and "xlsx content isBinary = XlsxThrows \<or> xlsx content isBinary = Workbook []"
  shows
    "isBinary = (\<not> endsWith (toLowerCase (file_name f)) ''.csv'' \<and> file_type f \<noteq> ''text/csv'') \<and>
     rd f (if isBinary then AsBinaryString else AsText) = Loaded content \<and>
     (endsWith (toLowerCase (file_name f)) ''.csv'' \<longrightarrow>
        parseFileContent xlsx content isBinary (file_name f) =
          Inr (filter (\<lambda>s. s \<noteq> [] \<and> 2 < length s \<and>
                         \<not> includesStr (toLowerCase s) ''smiles'' \<and>
                         \<not> includesStr (toLowerCase s) ''compound'')
                 (map (\<lambda>row. trim (takeWhile (\<lambda>c. \<not> isFieldSeparator c) row))
                    (drop (csvStartIndex (splitLines content)) (splitLines content))))) \<and>
     (\<not> endsWith (toLowerCase (file_name f)) ''.csv'' \<longrightarrow>
        parseFileContent xlsx content isBinary (file_name f) =
          Inl ''Could not parse file. Ensure SMILES are in the first column of a valid Excel (xlsx, xls) or CSV file.'' \<and>
        (\<forall>e st. selectedFile st = Some f \<and> reader e = rd \<and> xlsxRead e = xlsx \<longrightarrow>
           snd (handleSubmit e st) = None \<and>
           inputError (fst (handleSubmit e st)) =
             ''Could not parse file. Ensure SMILES are in the first column of a valid Excel (xlsx, xls) or CSV file.''))"
proof -
  have bin: "isBinary =
      (\<not> endsWith (toLowerCase (file_name f)) ''.csv'' \<and> file_type f \<noteq> ''text/csv'')"
    using assms(1) by (rule readFileContent_isBinary)
  have mode: "rd f (if isBinary then AsBinaryString else AsText) = Loaded content"
    using assms(1) by (rule readFileContent_loaded)
  have parse: "parseFileContent xlsx content isBinary (file_name f) =
       (if \<not> isBinary \<and> endsWith (toLowerCase (file_name f)) ''.csv''
        then Inr (csvSmiles content) else Inl couldNotParse)"
    using assms(2) by (rule parse_failure [of xlsx content isBinary "file_name f"])
  have csv: "parseFileContent xlsx content isBinary (file_name f) = Inr (csvSmiles content)"
    if "endsWith (toLowerCase (file_name f)) ''.csv''"
    using that bin parse by simp
  have other: "parseFileContent xlsx content isBinary (file_name f) = Inl couldNotParse"
    if "\<not> endsWith (toLowerCase (file_name f)) ''.csv''"
    using that parse by simp
  have submit: "snd (handleSubmit e st) = None \<and>
      inputError (fst (handleSubmit e st)) = couldNotParse"
    if "\<not> endsWith (toLowerCase (file_name f)) ''.csv''"
      and "selectedFile st = Some f" and "reader e = rd" and "xlsxRead e = xlsx" for e st
  proof -
    from that assms(1) other have "smilesToProcess e st = Inl couldNotParse"
      by (intro smilesToProcess_parse_error [of st f e content isBinary]) simp_all
    then show ?thesis by (rule handleSubmit_Inl)
  qed
  from bin mode csv other submit show ?thesis
    unfolding csvSmiles_rows [symmetric] couldNotParse_def [symmetric] by blast
qed

lemma example_csv_read:
  "readFileContent
     (\<lambda>f m. case m of
        AsText \<Rightarrow> Loaded (''SMILES'' @ [CHR 0x0A] @ ''CCC,1'' @ [CHR 0x0D, CHR 0x0A] @ ''CCO;2'')
      | AsBinaryString \<Rightarrow> ReadError ''binary'')
     \<lparr>file_name = ''Data.CSV'', file_type = ''application/vnd.ms-excel''\<rparr> =
   Inr (''SMILES'' @ [CHR 0x0A] @ ''CCC,1'' @ [CHR 0x0D, CHR 0x0A] @ ''CCO;2'', False)"
  by code_simp

lemma example_xlsx_read:
  "readFileContent (\<lambda>_ _. Loaded ''PK'') \<lparr>file_name = ''data.xlsx'', file_type = []\<rparr> =
   Inr (''PK'', True)"
  by code_simp

lemma example_xlsx_selected:
  "selectedFile (handleFileChange (Some \<lparr>file_name = ''data.xlsx'', file_type = []\<rparr>)
                   initialState) = Some \<lparr>file_name = ''data.xlsx'', file_type = []\<rparr>"
  by code_simp


theorem csv_fallback_witness:
  "parseFileContent (\<lambda>_ _. XlsxThrows)
     (''SMILES'' @ [CHR 0x0A] @ ''CCC,1'' @ [CHR 0x0D, CHR 0x0A] @ ''CCO;2'') False ''Data.CSV'' =
     Inr [''CCC'', ''CCO''] \<and>
   parseFileContent (\<lambda>_ _. Workbook []) ''PK'' True ''data.xlsx'' =
     Inl ''Could not parse file. Ensure SMILES are in the first column of a valid Excel (xlsx, xls) or CSV file.'' \<and>
   snd (handleSubmit (constEnv (Loaded ''PK'') (Workbook []) (NetworkError []))
         (handleFileChange (Some \<lparr>file_name = ''data.xlsx'', file_type = []\<rparr>)
            initialState)) = None \<and>
   inputError (fst (handleSubmit (constEnv (Loaded ''PK'') (Workbook []) (NetworkError []))
         (handleFileChange (Some \<lparr>file_name = ''data.xlsx'', file_type = []\<rparr>)
            initialState))) =
     ''Could not parse file. Ensure SMILES are in the first column of a valid Excel (xlsx, xls) or CSV file.''"
proof -
  let ?c = "''SMILES'' @ [CHR 0x0A] @ ''CCC,1'' @ [CHR 0x0D, CHR 0x0A] @ ''CCO;2''"
  let ?rd = "\<lambda>(f :: upload) m. case m of
        AsText \<Rightarrow> Loaded ?c | AsBinaryString \<Rightarrow> ReadError ''binary''"
  let ?f = "\<lparr>file_name = ''Data.CSV'', file_type = ''application/vnd.ms-excel''\<rparr>"
  let ?g = "\<lparr>file_name = ''data.xlsx'', file_type = []\<rparr>"
  let ?e = "constEnv (Loaded ''PK'') (Workbook []) (NetworkError [])"
  have n: "endsWith (toLowerCase (file_name ?f)) ''.csv''"
    by code_simp
  have r: "filter (\<lambda>s. s \<noteq> [] \<and> 2 < length s \<and> \<not> includesStr (toLowerCase s) ''smiles'' \<and>
                         \<not> includesStr (toLowerCase s) ''compound'')
                 (map (\<lambda>row. trim (takeWhile (\<lambda>c. \<not> isFieldSeparator c) row))
                    (drop (csvStartIndex (splitLines ?c)) (splitLines ?c))) = [''CCC'', ''CCO'']"
    by code_simp
  have a: "parseFileContent (\<lambda>_ _. XlsxThrows) ?c False ''Data.CSV'' = Inr [''CCC'', ''CCO'']"
    using csv_fallback [of ?rd ?f ?c False "\<lambda>_ _. XlsxThrows", OF example_csv_read] n
    unfolding r by simp
  have m: "\<not> endsWith (toLowerCase (file_name ?g)) ''.csv''"
    by code_simp
  have env: "reader ?e = (\<lambda>_ _. Loaded ''PK'')" "xlsxRead ?e = (\<lambda>_ _. Workbook [])"
    by (simp_all add: constEnv_def)
  have b: "parseFileContent (\<lambda>_ _. Workbook []) ''PK'' True ''data.xlsx'' =
     Inl ''Could not parse file. Ensure SMILES are in the first column of a valid Excel (xlsx, xls) or CSV file.'' \<and>
     snd (handleSubmit ?e (handleFileChange (Some ?g) initialState)) = None \<and>
     inputError (fst (handleSubmit ?e (handleFileChange (Some ?g) initialState))) =
     ''Could not parse file. Ensure SMILES are in the first column of a valid Excel (xlsx, xls) or CSV file.''"
    using csv_fallback [of "\<lambda>_ _. Loaded ''PK''" ?g "''PK''" True "\<lambda>_ _. Workbook []",
        OF example_xlsx_read] m env example_xlsx_selected
    by simp
  from a b show ?thesis by blast
qed


text \<open>
  The claim as it is written gives the fallback to every CSV-typed file, the files that are
  read as text. A file named a.xlsx with the type text/csv is accepted at selection and read as
  text, but when its parse fails there is no fallback: the parse error is raised.
\<close>

theorem csv_fallback_counterexample:
  "fileExtension ''a.xlsx'' \<in> set allowedTypes \<and>
   readFileContent
     (\<lambda>f m. case m of AsText \<Rightarrow> Loaded ''CCC'' | AsBinaryString \<Rightarrow> ReadError ''binary'')
     \<lparr>file_name = ''a.xlsx'', file_type = ''text/csv''\<rparr> = Inr (''CCC'', False) \<and>
   parseFileContent (\<lambda>_ _. XlsxThrows) ''CCC'' False ''a.xlsx'' =
     Inl ''Could not parse file. Ensure SMILES are in the first column of a valid Excel (xlsx, xls) or CSV file.'' \<and>
   snd (handleSubmit (constEnv (Loaded ''CCC'') XlsxThrows (NetworkError []))
         (handleFileChange (Some \<lparr>file_name = ''a.xlsx'', file_type = ''text/csv''\<rparr>)
            initialState)) = None \<and>
   inputError (fst (handleSubmit (constEnv (Loaded ''CCC'') XlsxThrows (NetworkError []))
         (handleFileChange (Some \<lparr>file_name = ''a.xlsx'', file_type = ''text/csv''\<rparr>)
            initialState))) =
     ''Could not parse file. Ensure SMILES are in the first column of a valid Excel (xlsx, xls) or CSV file.''"
  by code_simp

text \<open>
  Claim C10. The line-splitting fallback and the structured path both compute the
  specification's extraction (the header rule, then the per-value filter) of their first
  column, so they return the same candidates whenever the first column is the same list of
  texts under both.
\<close>

theorem fallback_agrees_with_sheet:
  "sheetSmiles g = spec_columnSmiles (map cellText g) \<and>
   csvSmiles content = spec_columnSmiles (map firstField (splitLines content)) \<and>
   (map cellText g = map firstField (splitLines content) \<longrightarrow> sheetSmiles g = csvSmiles content)"
  by (simp add: sheetSmiles_spec csvSmiles_spec)

theorem fallback_agrees_with_sheet_witness:
  "map cellText [[JStr ''SMILES'', JStr ''name''], [JStr ''CCC'', JStr ''propane''], [JStr '' CCO'']] =
     map firstField (splitLines (''SMILES,name'' @ [CHR 0x0D, CHR 0x0A] @ ''CCC;propane'' @ [CHR 0x0A] @ '' CCO'')) \<and>
   sheetSmiles [[JStr ''SMILES'', JStr ''name''], [JStr ''CCC'', JStr ''propane''], [JStr '' CCO'']] = [''CCC'', ''CCO''] \<and>
   csvSmiles (''SMILES,name'' @ [CHR 0x0D, CHR 0x0A] @ ''CCC;propane'' @ [CHR 0x0A] @ '' CCO'') = [''CCC'', ''CCO'']"
proof -
  let ?g = "[[JStr ''SMILES'', JStr ''name''], [JStr ''CCC'', JStr ''propane''], [JStr '' CCO'']]"
  let ?c = "''SMILES,name'' @ [CHR 0x0D, CHR 0x0A] @ ''CCC;propane'' @ [CHR 0x0A] @ '' CCO''"
  have col: "map cellText ?g = map firstField (splitLines ?c)"
    by code_simp
  have sheet: "sheetSmiles ?g = [''CCC'', ''CCO'']"
    by code_simp
  from col have "sheetSmiles ?g = csvSmiles ?c"
    using fallback_agrees_with_sheet [of ?g ?c] by blast
  with col sheet show ?thesis by simp
qed

section \<open>Trimming and splitting\<close>

lemma trim_eq_Nil_iff: "trim s = [] \<longleftrightarrow> (\<forall>c \<in> set s. isWhiteSpace c)"
proof
  assume "trim s = []"
  then have all: "\<forall>c \<in> set (dropWhile isWhiteSpace s). isWhiteSpace c"
    by (simp add: trim_def dropWhile_eq_Nil_conv)
  have "dropWhile isWhiteSpace s = []"
  proof (rule ccontr)
    assume ne: "dropWhile isWhiteSpace s \<noteq> []"
    then have "\<not> isWhiteSpace (hd (dropWhile isWhiteSpace s))"
      by (rule hd_dropWhile)
    moreover from ne have "hd (dropWhile isWhiteSpace s) \<in> set (dropWhile isWhiteSpace s)"
      by simp
    ultimately show False using all by blast
  qed
  then show "\<forall>c \<in> set s. isWhiteSpace c"
    by (simp add: dropWhile_eq_Nil_conv)
next
  assume "\<forall>c \<in> set s. isWhiteSpace c"
  then show "trim s = []" by (auto simp: trim_def dest: set_dropWhileD)
qed

lemma trim_ws_Cons: "isWhiteSpace c \<Longrightarrow> trim (c # s) = trim s"
  by (simp add: trim_def)

lemma trim_ws_snoc:
  assumes "isWhiteSpace c"
  shows "trim (s @ [c]) = trim s"
proof (cases "\<forall>x \<in> set s. isWhiteSpace x")
  case True
  with assms have "\<forall>x \<in> set (s @ [c]). isWhiteSpace x" by simp
  then have "trim (s @ [c]) = []" by (simp only: trim_eq_Nil_iff)
  moreover from True have "trim s = []" by (simp only: trim_eq_Nil_iff)
  ultimately show ?thesis by simp
next
  case False
  then have "dropWhile isWhiteSpace (s @ [c]) = dropWhile isWhiteSpace s @ [c]"
    by (auto simp: dropWhile_append)
  with assms show ?thesis by (simp add: trim_def)
qed

lemma last_dropWhile: "dropWhile P xs \<noteq> [] \<Longrightarrow> last (dropWhile P xs) = last xs"
  by (induction xs) (auto split: if_splits)

lemma dropWhile_fixed: "xs = [] \<or> \<not> P (hd xs) \<Longrightarrow> dropWhile P xs = xs"
  by (cases xs) auto

lemma trim_idem: "trim (trim s) = trim s"
proof -
  define u where "u = dropWhile isWhiteSpace s"
  define v where "v = dropWhile isWhiteSpace (rev u)"
  have t: "trim s = rev v" by (simp add: trim_def u_def v_def)
  have v_fixed: "dropWhile isWhiteSpace v = v"
    by (simp add: v_def)
  have "rev v = [] \<or> \<not> isWhiteSpace (hd (rev v))"
  proof (cases "v = []")
    case True
    then show ?thesis by simp
  next
    case False
    then have "last v = last (rev u)"
      unfolding v_def by (rule last_dropWhile)
    moreover from False have "u \<noteq> []" by (auto simp: v_def)
    ultimately have "last v = hd u" by (simp add: last_rev)
    moreover from \<open>u \<noteq> []\<close> have "\<not> isWhiteSpace (hd u)"
      unfolding u_def by (rule hd_dropWhile)
    ultimately show ?thesis using False by (simp add: hd_rev)
  qed
  then have "dropWhile isWhiteSpace (rev v) = rev v"
    by (rule dropWhile_fixed)
  then show ?thesis
    unfolding t by (simp add: trim_def v_fixed)
qed

lemma splitRuns_not_Nil [simp]: "splitRuns d s \<noteq> []"
  by (induction d s rule: splitRuns.induct) (auto simp: addChar_def split: list.splits)

lemma addChar_hd_tl: "ps \<noteq> [] \<Longrightarrow> addChar c ps = (c # hd ps) # tl ps"
  by (cases ps) (auto simp: addChar_def)

lemma splitOn_pieces: "p \<in> set (splitOn d s) \<Longrightarrow> set p \<subseteq> set s"
proof (induction s arbitrary: p)
  case Nil
  then show ?case by simp
next
  case (Cons c cs)
  show ?case
  proof (cases "d c")
    case True
    with Cons show ?thesis by auto
  next
    case False
    with Cons.prems have "p \<in> set ((c # hd (splitOn d cs)) # tl (splitOn d cs))"
      by (simp add: addChar_hd_tl)
    then consider "p = c # hd (splitOn d cs)" | "p \<in> set (tl (splitOn d cs))" by auto
    then show ?thesis
    proof cases
      case 1
      have "hd (splitOn d cs) \<in> set (splitOn d cs)" by simp
      with Cons.IH have "set (hd (splitOn d cs)) \<subseteq> set cs" by blast
      with 1 show ?thesis by auto
    next
      case 2
      then have "p \<in> set (splitOn d cs)" by (rule list.set_sel(2) [rotated]) simp
      with Cons.IH have "set p \<subseteq> set cs" by blast
      then show ?thesis by auto
    qed
  qed
qed

lemma splitOn_append_delim: "d c \<Longrightarrow> splitOn d (a @ c # b) = splitOn d a @ splitOn d b"
  by (induction a) (auto simp: addChar_hd_tl)

lemma splitOn_snoc:
  "splitOn d (s @ [c]) =
     (if d c then splitOn d s @ [[]]
      else butlast (splitOn d s) @ [last (splitOn d s) @ [c]])"
proof (induction s)
  case Nil
  show ?case by (simp add: addChar_def)
next
  case (Cons x xs)
  show ?case
  proof (cases "splitOn d xs")
    case Nil
    then show ?thesis by simp
  next
    case (Cons p ps)
    with Cons.IH show ?thesis
      by (cases ps) (auto simp: addChar_def)
  qed
qed

lemma kept_hd_tl:
  "xs \<noteq> [] \<Longrightarrow>
     filter (\<lambda>s. s \<noteq> []) (map trim xs) =
     filter (\<lambda>s. s \<noteq> []) [trim (hd xs)] @ filter (\<lambda>s. s \<noteq> []) (map trim (tl xs))"
  by (cases xs) auto

lemma kept_splitOn_dropWhile:
  "filter (\<lambda>s. s \<noteq> []) (map trim (splitOn d (dropWhile d cs))) =
   filter (\<lambda>s. s \<noteq> []) (map trim (splitOn d cs))"
  by (induction cs) auto

lemma splitRuns_splitOn:
  "hd (splitRuns d t) = hd (splitOn d t) \<and>
   filter (\<lambda>s. s \<noteq> []) (map trim (tl (splitRuns d t))) =
   filter (\<lambda>s. s \<noteq> []) (map trim (tl (splitOn d t)))"
proof (induction d t rule: splitRuns.induct)
  case (1 d)
  show ?case by simp
next
  case (2 d c cs)
  show ?case
  proof (cases "d c")
    case True
    from 2(1) [OF True]
    have "filter (\<lambda>s. s \<noteq> []) (map trim (splitRuns d (dropWhile d cs))) =
          filter (\<lambda>s. s \<noteq> []) (map trim (splitOn d (dropWhile d cs)))"
      by (simp add: kept_hd_tl)
    with True show ?thesis by (simp add: kept_splitOn_dropWhile)
  next
    case False
    with 2(2) show ?thesis by (simp add: addChar_hd_tl)
  qed
qed

lemma textSmiles_splitOn:
  "textSmiles t = filter (\<lambda>s. s \<noteq> []) (map trim (splitOn isTextDelimiter t))"
  using splitRuns_splitOn [of isTextDelimiter t]
  by (simp add: textSmiles_def kept_hd_tl)

lemma textSmiles_blank: "trim t = [] \<Longrightarrow> textSmiles t = []"
proof -
  assume "trim t = []"
  then have ws: "\<forall>c \<in> set t. isWhiteSpace c" by (simp only: trim_eq_Nil_iff)
  have "trim p = []" if "p \<in> set (splitOn isTextDelimiter t)" for p
  proof -
    from that have "set p \<subseteq> set t" by (rule splitOn_pieces)
    with ws have "\<forall>c \<in> set p. isWhiteSpace c" by blast
    then show ?thesis by (simp only: trim_eq_Nil_iff)
  qed
  then show ?thesis by (simp add: textSmiles_splitOn filter_empty_conv)
qed

lemma textSmiles_ws_Cons:
  assumes "isWhiteSpace c"
  shows "textSmiles (c # t) = textSmiles t"
proof (cases "isTextDelimiter c")
  case True
  then show ?thesis by (simp add: textSmiles_splitOn)
next
  case False
  let ?xs = "splitOn isTextDelimiter t"
  from False have "splitOn isTextDelimiter (c # t) = (c # hd ?xs) # tl ?xs"
    by (simp add: addChar_hd_tl)
  then have "textSmiles (c # t) =
      filter (\<lambda>s. s \<noteq> []) [trim (hd ?xs)] @ filter (\<lambda>s. s \<noteq> []) (map trim (tl ?xs))"
    using assms by (simp add: textSmiles_splitOn trim_ws_Cons)
  also have "\<dots> = textSmiles t"
    unfolding textSmiles_splitOn by (rule kept_hd_tl [symmetric]) simp
  finally show ?thesis .
qed

lemma textSmiles_ws_prefix: "\<forall>c \<in> set w. isWhiteSpace c \<Longrightarrow> textSmiles (w @ t) = textSmiles t"
  by (induction w) (simp_all add: textSmiles_ws_Cons)

lemma textSmiles_ws_snoc:
  assumes "isWhiteSpace c"
  shows "textSmiles (t @ [c]) = textSmiles t"
proof -
  let ?xs = "splitOn isTextDelimiter t"
  have xs: "?xs = butlast ?xs @ [last ?xs]" by simp
  have "filter (\<lambda>s. s \<noteq> []) (map trim (butlast ?xs @ [last ?xs @ [c]])) =
        filter (\<lambda>s. s \<noteq> []) (map trim (butlast ?xs @ [last ?xs]))"
    using assms by (simp add: trim_ws_snoc del: append_butlast_last_id)
  also have "\<dots> = filter (\<lambda>s. s \<noteq> []) (map trim ?xs)"
    by simp
  finally show ?thesis
    by (simp add: textSmiles_splitOn splitOn_snoc del: append_butlast_last_id)
qed

lemma textSmiles_ws_suffix: "\<forall>c \<in> set w. isWhiteSpace c \<Longrightarrow> textSmiles (t @ w) = textSmiles t"
proof (induction w rule: rev_induct)
  case Nil
  show ?case by simp
next
  case (snoc c w)
  from snoc.prems have c: "isWhiteSpace c" and w: "\<forall>x \<in> set w. isWhiteSpace x"
    by simp_all
  have "textSmiles (t @ w @ [c]) = textSmiles ((t @ w) @ [c])"
    by simp
  also from c have "\<dots> = textSmiles (t @ w)"
    by (rule textSmiles_ws_snoc)
  also from w have "\<dots> = textSmiles t"
    by (rule snoc.IH)
  finally show ?case .
qed

lemma textSmiles_delims:
  "ds \<noteq> [] \<Longrightarrow> \<forall>c \<in> set ds. isTextDelimiter c \<Longrightarrow>
     textSmiles (a @ ds @ b) = textSmiles a @ textSmiles b"
proof (induction ds arbitrary: a)
  case Nil
  then show ?case by simp
next
  case (Cons c ds)
  then have c: "isTextDelimiter c" by simp
  show ?case
  proof (cases "ds = []")
    case True
    with c show ?thesis by (simp add: textSmiles_splitOn splitOn_append_delim)
  next
    case False
    with Cons have "textSmiles ([] @ ds @ b) = textSmiles [] @ textSmiles b"
      by (intro Cons.IH) simp_all
    then have "textSmiles (ds @ b) = textSmiles b"
      by (simp add: textSmiles_splitOn)
    with c show ?thesis
      by (simp add: textSmiles_splitOn splitOn_append_delim)
  qed
qed

section \<open>The candidates of the text box\<close>

lemma smilesToProcess_text:
  "selectedFile st = None \<Longrightarrow> smilesToProcess e st = Inr (textSmiles (textareaValue st))"
  by (simp add: smilesToProcess_def textSmiles_blank)

text \<open>
  Claim C5. With no file selected, the list assembled from the text is the text split at its
  newlines and commas, each piece trimmed and the empty pieces dropped; splitting at maximal
  runs of delimiters, as the code does, and splitting at every single delimiter give the same
  list. The list does not change when whitespace is put before or after the text, nor when a
  run of delimiters is replaced by another run made of newlines and commas in any mix. The
  text "CCC, CCO", a newline, "CNC" gives the list CCC, CCO, CNC.
\<close>

theorem text_candidates:
  "(selectedFile st = None \<longrightarrow>
      smilesToProcess e st = Inr (textSmiles (textareaValue st))) \<and>
   textSmiles t = filter (\<lambda>s. s \<noteq> []) (map trim (splitOn isTextDelimiter t)) \<and>
   ((\<forall>c \<in> set w1. isWhiteSpace c) \<and> (\<forall>c \<in> set w2. isWhiteSpace c) \<longrightarrow>
      textSmiles (w1 @ t @ w2) = textSmiles t) \<and>
   (ds \<noteq> [] \<and> ds' \<noteq> [] \<and> (\<forall>c \<in> set ds. isTextDelimiter c) \<and>
    (\<forall>c \<in> set ds'. isTextDelimiter c) \<longrightarrow>
      textSmiles (a @ ds @ b) = textSmiles (a @ ds' @ b)) \<and>
   textSmiles (''CCC, CCO'' @ [CHR 0x0A] @ ''CNC'') = [''CCC'', ''CCO'', ''CNC'']"
proof -
  have ex: "textSmiles (''CCC, CCO'' @ [CHR 0x0A] @ ''CNC'') = [''CCC'', ''CCO'', ''CNC'']"
    by code_simp
  have ws: "textSmiles (w1 @ t @ w2) = textSmiles t"
    if "\<forall>c \<in> set w1. isWhiteSpace c" and "\<forall>c \<in> set w2. isWhiteSpace c"
    using that by (simp add: textSmiles_ws_prefix textSmiles_ws_suffix)
  have dl: "textSmiles (a @ ds @ b) = textSmiles (a @ ds' @ b)"
    if "ds \<noteq> []" and "ds' \<noteq> []" and "\<forall>c \<in> set ds. isTextDelimiter c"
      and "\<forall>c \<in> set ds'. isTextDelimiter c"
    using that by (simp add: textSmiles_delims)
  from ex ws dl show ?thesis
    using smilesToProcess_text [of st e] textSmiles_splitOn [of t] by blast
qed

theorem text_candidates_witness:
  "smilesToProcess (constEnv (ReadError []) XlsxThrows (NetworkError []))
     (textareaChange (''  CCC ,'' @ [CHR 0x0A] @ ''CCO,,'' @ [CHR 0x0A, CHR 0x20]) initialState) =
     Inr [''CCC'', ''CCO''] \<and>
   textSmiles ([CHR 0x09, CHR 0x20] @ ''CCC,CCO'' @ [CHR 0x20, CHR 0x0A]) = textSmiles ''CCC,CCO'' \<and>
   textSmiles (''CCC'' @ '','' @ ''CCO'') = textSmiles (''CCC'' @ ('','' @ [CHR 0x0A, CHR 0x0A]) @ ''CCO'')"
proof -
  let ?st = "textareaChange (''  CCC ,'' @ [CHR 0x0A] @ ''CCO,,'' @ [CHR 0x0A, CHR 0x20]) initialState"
  let ?e = "constEnv (ReadError []) XlsxThrows (NetworkError [])"
  have nofile: "selectedFile ?st = None"
    by (simp add: textareaChange_def)
  have split: "filter (\<lambda>s. s \<noteq> []) (map trim (splitOn isTextDelimiter (textareaValue ?st))) =
      [''CCC'', ''CCO'']"
    by code_simp
  have a: "smilesToProcess ?e ?st = Inr [''CCC'', ''CCO'']"
    using text_candidates [of ?st ?e "textareaValue ?st"] nofile split by simp
  have w1: "\<forall>c \<in> set [CHR 0x09, CHR 0x20]. isWhiteSpace c"
    by (simp add: isWhiteSpace_def)
  have w2: "\<forall>c \<in> set [CHR 0x20, CHR 0x0A]. isWhiteSpace c"
    by (simp add: isWhiteSpace_def)
  have b: "textSmiles ([CHR 0x09, CHR 0x20] @ ''CCC,CCO'' @ [CHR 0x20, CHR 0x0A]) = textSmiles ''CCC,CCO''"
    using text_candidates [of _ _ "''CCC,CCO''" "[CHR 0x09, CHR 0x20]" "[CHR 0x20, CHR 0x0A]"] w1 w2
    by blast
  have d1: "\<forall>c \<in> set '',''. isTextDelimiter c"
    by (simp add: isTextDelimiter_def)
  have d2: "\<forall>c \<in> set ('','' @ [CHR 0x0A, CHR 0x0A]). isTextDelimiter c"
    by (simp add: isTextDelimiter_def)
  have n1: "'','' \<noteq> []" and n2: "'','' @ [CHR 0x0A, CHR 0x0A] \<noteq> []"
    by simp_all
  have c: "textSmiles (''CCC'' @ '','' @ ''CCO'') = textSmiles (''CCC'' @ ('','' @ [CHR 0x0A, CHR 0x0A]) @ ''CCO'')"
    using text_candidates [of _ _ _ _ _ "'',''" "'','' @ [CHR 0x0A, CHR 0x0A]" "''CCC''" "''CCO''"]
      d1 d2 n1 n2 by blast
  from a b c show ?thesis by blast
qed

section \<open>The entries that are posted\<close>

lemma handleSubmit_posted_list:
  "snd (handleSubmit e st) = Some xs \<Longrightarrow> smilesToProcess e st = Inr xs"
  by (auto simp: handleSubmit_def Let_def split: sum.splits if_splits)

lemma textSmiles_entries: "s \<in> set (textSmiles t) \<Longrightarrow> trim s = s \<and> s \<noteq> []"
  by (auto simp: textSmiles_def trim_idem)

lemma sheetSmiles_entries: "s \<in> set (sheetSmiles g) \<Longrightarrow> trim s = s \<and> 2 < length s"
  by (auto simp: sheetSmiles_rows trim_idem)

lemma csvSmiles_entries: "s \<in> set (csvSmiles c) \<Longrightarrow> trim s = s \<and> 2 < length s"
  by (auto simp: csvSmiles_rows trim_idem)

lemma parseFileContent_entries:
  "parseFileContent x c b n = Inr xs \<Longrightarrow> s \<in> set xs \<Longrightarrow> trim s = s \<and> 2 < length s"
  by (auto simp: parseFileContent_def dest: sheetSmiles_entries csvSmiles_entries
      split: xlsx_result.splits list.splits if_splits)

lemma smilesToProcess_file_entries:
  "selectedFile st = Some f \<Longrightarrow> smilesToProcess e st = Inr xs \<Longrightarrow> s \<in> set xs \<Longrightarrow>
     trim s = s \<and> 2 < length s"
  by (auto simp: smilesToProcess_def dest: parseFileContent_entries
      split: sum.splits if_splits prod.splits)

text \<open>
  Claim C6, as amended. Every entry of a list that is posted is a trimmed, non-empty string;
  when the list comes from an uploaded file, every entry is also longer than 2 characters.
\<close>

theorem posted_entries:
  assumes "snd (handleSubmit e st) = Some xs" and "s \<in> set xs"
  shows "trim s = s \<and> s \<noteq> [] \<and> (selectedFile st \<noteq> None \<longrightarrow> 2 < length s)"
proof -
  from assms(1) have list: "smilesToProcess e st = Inr xs"
    by (rule handleSubmit_posted_list)
  show ?thesis
  proof (cases "selectedFile st")
    case None
    with list have "xs = textSmiles (textareaValue st)"
      by (simp add: smilesToProcess_text)
    with assms(2) None show ?thesis
      by (simp add: textSmiles_entries)
  next
    case (Some f)
    from Some list assms(2) have "trim s = s \<and> 2 < length s"
      by (rule smilesToProcess_file_entries)
    with Some show ?thesis by auto
  qed
qed

lemma example_text_posted:
  "snd (handleSubmit (constEnv (ReadError []) XlsxThrows (NetworkError []))
         (textareaChange ''CCC, CCO'' initialState)) = Some [''CCC'', ''CCO'']"
  by code_simp

lemma example_file_posted:
  "snd (handleSubmit
         (constEnv (Loaded ''x'') (Workbook [[[JStr ''SMILES''], [JStr '' CCCC '']]])
            (NetworkError []))
         (handleFileChange (Some \<lparr>file_name = ''a.csv'', file_type = ''text/csv''\<rparr>)
            initialState)) = Some [''CCCC'']"
  by code_simp

lemma example_file_selected:
  "selectedFile (handleFileChange (Some \<lparr>file_name = ''a.csv'', file_type = ''text/csv''\<rparr>)
                   initialState) \<noteq> None"
  by code_simp

theorem posted_entries_witness:
  "snd (handleSubmit (constEnv (ReadError []) XlsxThrows (NetworkError []))
         (textareaChange ''CCC, CCO'' initialState)) = Some [''CCC'', ''CCO''] \<and>
   ''CCO'' \<in> set [''CCC'', ''CCO''] \<and> trim ''CCO'' = ''CCO'' \<and>
   snd (handleSubmit
         (constEnv (Loaded ''x'') (Workbook [[[JStr ''SMILES''], [JStr '' CCCC '']]])
            (NetworkError []))
         (handleFileChange (Some \<lparr>file_name = ''a.csv'', file_type = ''text/csv''\<rparr>)
            initialState)) = Some [''CCCC''] \<and>
   ''CCCC'' \<in> set [''CCCC''] \<and> trim ''CCCC'' = ''CCCC'' \<and> 2 < length ''CCCC''"
proof -
  have m1: "''CCO'' \<in> set [''CCC'', ''CCO'']" by simp
  have m2: "''CCCC'' \<in> set [''CCCC'']" by simp
  have a: "trim ''CCO'' = ''CCO''"
    using posted_entries [OF example_text_posted m1] by blast
  have b: "trim ''CCCC'' = ''CCCC'' \<and> 2 < length ''CCCC''"
    using posted_entries [OF example_file_posted m2] example_file_selected by blast
  from a b m1 m2 example_text_posted example_file_posted show ?thesis by blast
qed

text \<open>
  The claim as it is written asks for more than 2 characters from the text box too, where
  nothing filters by length: the text "C" is posted as the one-entry list "C".
\<close>

theorem posted_entries_counterexample:
  "snd (handleSubmit (constEnv (ReadError []) XlsxThrows (NetworkError []))
         (textareaChange ''C'' initialState)) = Some [''C''] \<and>
   \<not> 2 < length ''C''"
  by code_simp

end
